theory Spec2Isabelle
  imports Main
begin

section \<open>The module \<open>s3_fs\<close>: importing buckets and files from an S3 store\<close>

text \<open>
  The module has two functions, \<open>import_bucket_from_ssp_cloud\<close> and
  \<open>import_file_from_ssp_cloud\<close>. Each calls the method \<open>get\<close> of the
  filesystem object it is given, inside a \<open>try\<close>, prints one line when the call
  returns, and prints another line in each of its \<open>except\<close> clauses.
  Neither has a \<open>return\<close> statement.
\<close>

subsection \<open>Exceptions\<close>

text \<open>
  What \<open>get\<close> can raise, as far as the \<open>except\<close> clauses of the module tell
  exceptions apart: an instance of \<open>PermissionError\<close>, an instance of
  \<open>FileNotFoundError\<close>, or an exception of any other class, kept with its name.
\<close>

datatype exn = PermissionError | FileNotFoundError | OtherError string

subsection \<open>The filesystem object and the world it acts on\<close>

text \<open>
  The local filesystem maps a path to the content stored there. The filesystem object
  owns further state (the remote store, its connection, its caches), of a type the
  module knows nothing about.
\<close>

type_synonym filesystem = "string \<rightharpoonup> string"

record 'r env =
  disk :: filesystem
  remote :: 'r

text \<open>
  One call of \<open>get\<close>: the two positional arguments and the keyword argument
  \<open>recursive\<close>, which is \<open>None\<close> when the caller does not pass it.
\<close>

record get_call =
  rpath :: string
  lpath :: string
  recursive_kw :: "bool option"

text \<open>
  The filesystem object is any object with a method \<open>get\<close>: the call either returns
  or raises, and in both cases leaves an environment behind.
\<close>

type_synonym 'r handle = "get_call \<Rightarrow> 'r env \<Rightarrow> (exn + unit) \<times> 'r env"

text \<open>
  The world of the module: the lines it has printed, the calls it has made to the
  filesystem object, in order, and the environment.
\<close>

record 'r world =
  stdout :: "string list"
  calls :: "get_call list"
  env :: "'r env"

definition print_line :: "string \<Rightarrow> 'r world \<Rightarrow> 'r world" where
  "print_line s w = w\<lparr>stdout := stdout w @ [s]\<rparr>"

definition call_get ::
  "'r handle \<Rightarrow> string \<Rightarrow> string \<Rightarrow> bool option \<Rightarrow> 'r world \<Rightarrow> (exn + unit) \<times> 'r world" where
  "call_get fs_obj src dst kw w =
     (let c = \<lparr>rpath = src, lpath = dst, recursive_kw = kw\<rparr>;
          r = fs_obj c (env w)
      in (fst r, w\<lparr>calls := calls w @ [c], env := snd r\<rparr>))"

subsection \<open>The messages\<close>

definition bucket_downloaded :: "string \<Rightarrow> string \<Rightarrow> string" where
  "bucket_downloaded source_bucket_name destination_folder =
     ''The bucket '' @ source_bucket_name @ '' has been downloaded to '' @ destination_folder"

definition file_downloaded :: "string \<Rightarrow> string \<Rightarrow> string" where
  "file_downloaded source_file_name destination_file_path =
     ''The file '' @ source_file_name @ '' has been downloaded to '' @ destination_file_path"

definition no_permission :: "string \<Rightarrow> string" where
  "no_permission source_name =
     ''You tried to import '' @ source_name @ '' but you do not have the right permission''
       @ '' to do so !''"

definition does_not_exist :: "string \<Rightarrow> string" where
  "does_not_exist source_file_name = ''The file '' @ source_file_name @ '' does not exist''"

subsection \<open>The two functions\<close>

text \<open>
  The parameter \<open>recursive\<close> has the default \<open>True\<close>: the argument is \<open>None\<close>
  when the caller omits it. The result is \<open>Inr ()\<close> when the function returns
  (it returns Python's \<open>None\<close>) and \<open>Inl e\<close> when the exception \<open>e\<close> leaves it.
\<close>

definition recursive_default :: "bool option \<Rightarrow> bool" where
  "recursive_default recursive_arg = (case recursive_arg of None \<Rightarrow> True | Some b \<Rightarrow> b)"

definition import_bucket_from_ssp_cloud ::
  "'r handle \<Rightarrow> string \<Rightarrow> string \<Rightarrow> bool option \<Rightarrow> 'r world \<Rightarrow> (exn + unit) \<times> 'r world" where
  "import_bucket_from_ssp_cloud fs_obj source_bucket_name destination_folder recursive_arg w =
     (let recursive = recursive_default recursive_arg;
          r = call_get fs_obj source_bucket_name destination_folder (Some recursive) w
      in case fst r of
           Inr u \<Rightarrow>
             (Inr (), print_line (bucket_downloaded source_bucket_name destination_folder) (snd r))
         | Inl PermissionError \<Rightarrow>
             (Inr (), print_line (no_permission source_bucket_name) (snd r))
         | Inl e \<Rightarrow> (Inl e, snd r))"

definition import_file_from_ssp_cloud ::
  "'r handle \<Rightarrow> string \<Rightarrow> string \<Rightarrow> 'r world \<Rightarrow> (exn + unit) \<times> 'r world" where
  "import_file_from_ssp_cloud fs_obj source_file_name destination_file_path w =
     (let r = call_get fs_obj source_file_name destination_file_path None w
      in case fst r of
           Inr u \<Rightarrow>
             (Inr (), print_line (file_downloaded source_file_name destination_file_path) (snd r))
         | Inl PermissionError \<Rightarrow>
             (Inr (), print_line (no_permission source_file_name) (snd r))
         | Inl FileNotFoundError \<Rightarrow>
             (Inr (), print_line (does_not_exist source_file_name) (snd r))
         | Inl e \<Rightarrow> (Inl e, snd r))"

text \<open>Two statements in sequence: the second runs when the first has not raised.\<close>

definition and_then ::
  "('r world \<Rightarrow> (exn + unit) \<times> 'r world) \<Rightarrow> ('r world \<Rightarrow> (exn + unit) \<times> 'r world) \<Rightarrow>
   'r world \<Rightarrow> (exn + unit) \<times> 'r world" where
  "and_then f g w = (case fst (f w) of Inr u \<Rightarrow> g (snd (f w)) | Inl e \<Rightarrow> (Inl e, snd (f w)))"

subsection \<open>Filesystem objects to run the functions on\<close>

text \<open>
  A store that holds one object, which \<open>get\<close> writes to the local path; a store the
  user may not read; a store where nothing is found; a store that cannot be reached.
\<close>

definition serving :: "string \<Rightarrow> unit handle" where
  "serving content c e = (Inr (), e\<lparr>disk := (disk e)(lpath c \<mapsto> content)\<rparr>)"

definition denying :: "unit handle" where
  "denying c e = (Inl PermissionError, e)"

definition missing :: "unit handle" where
  "missing c e = (Inl FileNotFoundError, e)"

definition unreachable :: "unit handle" where
  "unreachable c e = (Inl (OtherError ''ConnectionError''), e)"

text \<open>
  A store that downloads part of what was asked for and then finds an object the user
  may not read: \<open>get\<close> has written to the local path when it raises.
\<close>

definition denying_after_writing :: "unit handle" where
  "denying_after_writing c e =
     (Inl PermissionError, e\<lparr>disk := (disk e)(lpath c \<mapsto> ''partial'')\<rparr>)"

definition fresh :: "unit world" where
  "fresh = \<lparr>stdout = [], calls = [], env = \<lparr>disk = Map.empty, remote = ()\<rparr>\<rparr>"

section \<open>Properties\<close>

subsection \<open>What a call leaves behind\<close>

lemma call_get_fst:
  "fst (call_get fs_obj src dst kw w) =
     fst (fs_obj \<lparr>rpath = src, lpath = dst, recursive_kw = kw\<rparr> (env w))"
  by (simp add: call_get_def Let_def)

lemma call_get_stdout: "stdout (snd (call_get fs_obj src dst kw w)) = stdout w"
  by (simp add: call_get_def Let_def)

lemma call_get_calls:
  "calls (snd (call_get fs_obj src dst kw w)) =
     calls w @ [\<lparr>rpath = src, lpath = dst, recursive_kw = kw\<rparr>]"
  by (simp add: call_get_def Let_def)

lemma call_get_env:
  "env (snd (call_get fs_obj src dst kw w)) =
     snd (fs_obj \<lparr>rpath = src, lpath = dst, recursive_kw = kw\<rparr> (env w))"
  by (simp add: call_get_def Let_def)

lemma print_line_stdout: "stdout (print_line s w) = stdout w @ [s]"
  by (simp add: print_line_def)

lemma print_line_calls: "calls (print_line s w) = calls w"
  by (simp add: print_line_def)

lemma print_line_env: "env (print_line s w) = env w"
  by (simp add: print_line_def)

lemmas call_get_simps = call_get_fst call_get_stdout call_get_calls call_get_env
lemmas print_line_simps = print_line_stdout print_line_calls print_line_env

lemma bucket_calls:
  "calls (snd (import_bucket_from_ssp_cloud fs_obj src dst ra w)) =
     calls w @ [\<lparr>rpath = src, lpath = dst, recursive_kw = Some (recursive_default ra)\<rparr>]"
  by (simp add: import_bucket_from_ssp_cloud_def Let_def call_get_simps print_line_simps
      split: sum.split exn.split)

lemma file_calls:
  "calls (snd (import_file_from_ssp_cloud fs_obj src dst w)) =
     calls w @ [\<lparr>rpath = src, lpath = dst, recursive_kw = None\<rparr>]"
  by (simp add: import_file_from_ssp_cloud_def Let_def call_get_simps print_line_simps
      split: sum.split exn.split)

lemma bucket_env:
  "env (snd (import_bucket_from_ssp_cloud fs_obj src dst ra w)) =
     snd (fs_obj \<lparr>rpath = src, lpath = dst, recursive_kw = Some (recursive_default ra)\<rparr> (env w))"
  by (simp add: import_bucket_from_ssp_cloud_def Let_def call_get_simps print_line_simps
      split: sum.split exn.split)

lemma file_env:
  "env (snd (import_file_from_ssp_cloud fs_obj src dst w)) =
     snd (fs_obj \<lparr>rpath = src, lpath = dst, recursive_kw = None\<rparr> (env w))"
  by (simp add: import_file_from_ssp_cloud_def Let_def call_get_simps print_line_simps
      split: sum.split exn.split)

lemma bucket_fst:
  "fst (import_bucket_from_ssp_cloud fs_obj src dst ra w) =
     (case fst (fs_obj \<lparr>rpath = src, lpath = dst, recursive_kw = Some (recursive_default ra)\<rparr> (env w)) of
        Inr u \<Rightarrow> Inr ()
      | Inl PermissionError \<Rightarrow> Inr ()
      | Inl e \<Rightarrow> Inl e)"
  by (simp add: import_bucket_from_ssp_cloud_def Let_def call_get_simps
      split: sum.split exn.split)

lemma file_fst:
  "fst (import_file_from_ssp_cloud fs_obj src dst w) =
     (case fst (fs_obj \<lparr>rpath = src, lpath = dst, recursive_kw = None\<rparr> (env w)) of
        Inr u \<Rightarrow> Inr ()
      | Inl (OtherError n) \<Rightarrow> Inl (OtherError n)
      | Inl e \<Rightarrow> Inr ())"
  by (simp add: import_file_from_ssp_cloud_def Let_def call_get_simps
      split: sum.split exn.split)

lemma bucket_stdout:
  "stdout (snd (import_bucket_from_ssp_cloud fs_obj src dst ra w)) =
     (case fst (fs_obj \<lparr>rpath = src, lpath = dst, recursive_kw = Some (recursive_default ra)\<rparr> (env w)) of
        Inr u \<Rightarrow> stdout w @ [bucket_downloaded src dst]
      | Inl PermissionError \<Rightarrow> stdout w @ [no_permission src]
      | Inl e \<Rightarrow> stdout w)"
  by (simp add: import_bucket_from_ssp_cloud_def Let_def call_get_simps print_line_simps
      split: sum.split exn.split)

lemma file_stdout:
  "stdout (snd (import_file_from_ssp_cloud fs_obj src dst w)) =
     (case fst (fs_obj \<lparr>rpath = src, lpath = dst, recursive_kw = None\<rparr> (env w)) of
        Inr u \<Rightarrow> stdout w @ [file_downloaded src dst]
      | Inl PermissionError \<Rightarrow> stdout w @ [no_permission src]
      | Inl FileNotFoundError \<Rightarrow> stdout w @ [does_not_exist src]
      | Inl e \<Rightarrow> stdout w)"
  by (simp add: import_file_from_ssp_cloud_def Let_def call_get_simps print_line_simps
      split: sum.split exn.split)

subsection \<open>Caught failures\<close>

text \<open>
  C1. When \<open>get\<close> raises \<open>PermissionError\<close> or \<open>FileNotFoundError\<close> inside
  \<open>import_file_from_ssp_cloud\<close>, no exception leaves the function: it returns, and it has
  printed exactly one line, the permission warning naming the source in the first case and
  the not-found warning naming the source in the second. The two warnings are never the
  same line.
\<close>

theorem import_file_catches_permission_and_not_found:
  assumes "fst (fs_obj \<lparr>rpath = src, lpath = dst, recursive_kw = None\<rparr> (env w)) = Inl e"
    and "e = PermissionError \<or> e = FileNotFoundError"
  shows "fst (import_file_from_ssp_cloud fs_obj src dst w) = Inr () \<and>
         stdout (snd (import_file_from_ssp_cloud fs_obj src dst w)) =
           stdout w @
           [if e = PermissionError
            then ''You tried to import '' @ src @
                 '' but you do not have the right permission to do so !''
            else ''The file '' @ src @ '' does not exist''] \<and>
         ''You tried to import '' @ src @ '' but you do not have the right permission to do so !''
           \<noteq> ''The file '' @ src @ '' does not exist''"
  using assms
  by (auto simp add: file_fst file_stdout no_permission_def does_not_exist_def)

theorem import_file_catches_permission_and_not_found_witness:
  "fst (import_file_from_ssp_cloud denying ''bucket/readme.txt'' ''./readme.txt'' fresh) = Inr () \<and>
   stdout (snd (import_file_from_ssp_cloud denying ''bucket/readme.txt'' ''./readme.txt'' fresh)) =
     [''You tried to import bucket/readme.txt but you do not have the right permission to do so !''] \<and>
   fst (import_file_from_ssp_cloud missing ''bucket/readme.txt'' ''./readme.txt'' fresh) = Inr () \<and>
   stdout (snd (import_file_from_ssp_cloud missing ''bucket/readme.txt'' ''./readme.txt'' fresh)) =
     [''The file bucket/readme.txt does not exist'']"
proof -
  have d: "fst (denying \<lparr>rpath = ''bucket/readme.txt'', lpath = ''./readme.txt'',
                          recursive_kw = None\<rparr> (env fresh)) = Inl PermissionError"
    by (simp add: denying_def)
  have m: "fst (missing \<lparr>rpath = ''bucket/readme.txt'', lpath = ''./readme.txt'',
                          recursive_kw = None\<rparr> (env fresh)) = Inl FileNotFoundError"
    by (simp add: missing_def)
  show ?thesis
    using
      import_file_catches_permission_and_not_found
        [where fs_obj = denying and w = fresh and e = PermissionError, OF d]
      import_file_catches_permission_and_not_found
        [where fs_obj = missing and w = fresh and e = FileNotFoundError, OF m]
    by (simp add: fresh_def)
qed

text \<open>
  C2. When \<open>get\<close> raises \<open>FileNotFoundError\<close> inside
  \<open>import_bucket_from_ssp_cloud\<close>, the function has no clause for it: the same exception
  leaves the function, and nothing is printed.
\<close>

theorem import_bucket_propagates_not_found:
  assumes "fst (fs_obj \<lparr>rpath = src, lpath = dst,
                        recursive_kw = Some (recursive_default recursive_arg)\<rparr> (env w))
           = Inl FileNotFoundError"
  shows "fst (import_bucket_from_ssp_cloud fs_obj src dst recursive_arg w) = Inl FileNotFoundError \<and>
         stdout (snd (import_bucket_from_ssp_cloud fs_obj src dst recursive_arg w)) = stdout w"
  using assms by (simp add: bucket_fst bucket_stdout)

theorem import_bucket_propagates_not_found_witness:
  "fst (import_bucket_from_ssp_cloud missing ''bucket/data'' ''./data'' None fresh)
     = Inl FileNotFoundError \<and>
   stdout (snd (import_bucket_from_ssp_cloud missing ''bucket/data'' ''./data'' None fresh)) = []"
proof -
  have m: "fst (missing \<lparr>rpath = ''bucket/data'', lpath = ''./data'',
                          recursive_kw = Some (recursive_default None)\<rparr> (env fresh))
           = Inl FileNotFoundError"
    by (simp add: missing_def)
  show ?thesis
    using import_bucket_propagates_not_found
        [where fs_obj = missing and w = fresh and recursive_arg = None, OF m]
    by (simp add: fresh_def)
qed

text \<open>
  C3. When \<open>get\<close> raises \<open>PermissionError\<close> inside \<open>import_bucket_from_ssp_cloud\<close>,
  the function catches it: it returns, no exception reaches the caller, and it has printed
  exactly one line, the warning naming the bucket.
\<close>

theorem import_bucket_catches_permission:
  assumes "fst (fs_obj \<lparr>rpath = src, lpath = dst,
                        recursive_kw = Some (recursive_default recursive_arg)\<rparr> (env w))
           = Inl PermissionError"
  shows "fst (import_bucket_from_ssp_cloud fs_obj src dst recursive_arg w) = Inr () \<and>
         stdout (snd (import_bucket_from_ssp_cloud fs_obj src dst recursive_arg w)) =
           stdout w @
           [''You tried to import '' @ src @
            '' but you do not have the right permission to do so !'']"
  using assms by (simp add: bucket_fst bucket_stdout no_permission_def)

theorem import_bucket_catches_permission_witness:
  "fst (import_bucket_from_ssp_cloud denying ''bucket/data'' ''./data'' (Some True) fresh) = Inr () \<and>
   stdout (snd (import_bucket_from_ssp_cloud denying ''bucket/data'' ''./data'' (Some True) fresh)) =
     [''You tried to import bucket/data but you do not have the right permission to do so !'']"
proof -
  have d: "fst (denying \<lparr>rpath = ''bucket/data'', lpath = ''./data'',
                          recursive_kw = Some (recursive_default (Some True))\<rparr> (env fresh))
           = Inl PermissionError"
    by (simp add: denying_def)
  show ?thesis
    using import_bucket_catches_permission
        [where fs_obj = denying and w = fresh and recursive_arg = "Some True", OF d]
    by (simp add: fresh_def)
qed

subsection \<open>Failures that are not caught\<close>

text \<open>
  C4. In both functions, an exception raised by \<open>get\<close> that is neither a
  \<open>PermissionError\<close> nor a \<open>FileNotFoundError\<close> is not caught: the same exception
  leaves the function, and nothing is printed.
\<close>

theorem other_failures_propagate:
  assumes "e \<noteq> PermissionError" and "e \<noteq> FileNotFoundError"
  shows "(fst (fs_obj \<lparr>rpath = src, lpath = dst,
                        recursive_kw = Some (recursive_default recursive_arg)\<rparr> (env w)) = Inl e
          \<longrightarrow> fst (import_bucket_from_ssp_cloud fs_obj src dst recursive_arg w) = Inl e \<and>
              stdout (snd (import_bucket_from_ssp_cloud fs_obj src dst recursive_arg w)) = stdout w) \<and>
         (fst (fs_obj \<lparr>rpath = src, lpath = dst, recursive_kw = None\<rparr> (env w)) = Inl e
          \<longrightarrow> fst (import_file_from_ssp_cloud fs_obj src dst w) = Inl e \<and>
              stdout (snd (import_file_from_ssp_cloud fs_obj src dst w)) = stdout w)"
  using assms
  by (cases e) (simp_all add: bucket_fst bucket_stdout file_fst file_stdout)

theorem other_failures_propagate_witness:
  "fst (import_bucket_from_ssp_cloud unreachable ''bucket/data'' ''./data'' None fresh)
     = Inl (OtherError ''ConnectionError'') \<and>
   stdout (snd (import_bucket_from_ssp_cloud unreachable ''bucket/data'' ''./data'' None fresh)) = [] \<and>
   fst (import_file_from_ssp_cloud unreachable ''bucket/data'' ''./data'' fresh)
     = Inl (OtherError ''ConnectionError'') \<and>
   stdout (snd (import_file_from_ssp_cloud unreachable ''bucket/data'' ''./data'' fresh)) = []"
proof -
  have p: "OtherError ''ConnectionError'' \<noteq> PermissionError"
    and n: "OtherError ''ConnectionError'' \<noteq> FileNotFoundError"
    by simp_all
  have b: "fst (unreachable \<lparr>rpath = ''bucket/data'', lpath = ''./data'',
                              recursive_kw = Some (recursive_default None)\<rparr> (env fresh))
           = Inl (OtherError ''ConnectionError'')"
    and f: "fst (unreachable \<lparr>rpath = ''bucket/data'', lpath = ''./data'',
                              recursive_kw = None\<rparr> (env fresh))
           = Inl (OtherError ''ConnectionError'')"
    by (simp_all add: unreachable_def)
  show ?thesis
    using other_failures_propagate [OF p n, of unreachable "''bucket/data''" "''./data''" None fresh]
      b f
    by (simp add: fresh_def)
qed

subsection \<open>Success\<close>

text \<open>
  C5. When \<open>get\<close> returns, each function prints exactly one line, which names the
  source \<open>X\<close> and the destination \<open>Y\<close> it was called with:
  \<open>The bucket X has been downloaded to Y\<close> for \<open>import_bucket_from_ssp_cloud\<close> and
  \<open>The file X has been downloaded to Y\<close> for \<open>import_file_from_ssp_cloud\<close>.
\<close>

theorem success_message:
  "(fst (fs_obj \<lparr>rpath = X, lpath = Y,
                   recursive_kw = Some (recursive_default recursive_arg)\<rparr> (env w)) = Inr ()
    \<longrightarrow> stdout (snd (import_bucket_from_ssp_cloud fs_obj X Y recursive_arg w)) =
          stdout w @ [''The bucket '' @ X @ '' has been downloaded to '' @ Y]) \<and>
   (fst (fs_obj \<lparr>rpath = X, lpath = Y, recursive_kw = None\<rparr> (env w)) = Inr ()
    \<longrightarrow> stdout (snd (import_file_from_ssp_cloud fs_obj X Y w)) =
          stdout w @ [''The file '' @ X @ '' has been downloaded to '' @ Y])"
  by (simp add: bucket_stdout file_stdout bucket_downloaded_def file_downloaded_def)

theorem success_message_witness:
  "stdout (snd (import_bucket_from_ssp_cloud (serving ''0123'') ''bucket/data'' ''./data'' None fresh)) =
     [''The bucket bucket/data has been downloaded to ./data''] \<and>
   stdout (snd (import_file_from_ssp_cloud (serving ''0123'') ''bucket/data'' ''./data'' fresh)) =
     [''The file bucket/data has been downloaded to ./data'']"
proof -
  have b: "fst (serving ''0123'' \<lparr>rpath = ''bucket/data'', lpath = ''./data'',
                   recursive_kw = Some (recursive_default None)\<rparr> (env fresh)) = Inr ()"
    and f: "fst (serving ''0123'' \<lparr>rpath = ''bucket/data'', lpath = ''./data'',
                   recursive_kw = None\<rparr> (env fresh)) = Inr ()"
    by (simp_all add: serving_def)
  show ?thesis
    using success_message
        [where fs_obj = "serving ''0123''" and X = "''bucket/data''" and Y = "''./data''"
           and recursive_arg = None and w = fresh]
      b f
    by (simp add: fresh_def)
qed

text \<open>
  C6. Neither function hands a value to its caller. Whenever \<open>get\<close> returns or raises
  an exception the function catches (\<open>PermissionError\<close> for both,
  \<open>FileNotFoundError\<close> as well for \<open>import_file_from_ssp_cloud\<close>), the function
  returns \<open>None\<close> and no exception leaves it: the caller sees the same result after a
  success and after a caught failure.
\<close>

theorem no_return_value:
  "(fst (fs_obj \<lparr>rpath = src, lpath = dst,
                   recursive_kw = Some (recursive_default recursive_arg)\<rparr> (env w))
      \<in> {Inr (), Inl PermissionError}
    \<longrightarrow> fst (import_bucket_from_ssp_cloud fs_obj src dst recursive_arg w) = Inr ()) \<and>
   (fst (fs_obj \<lparr>rpath = src, lpath = dst, recursive_kw = None\<rparr> (env w))
      \<in> {Inr (), Inl PermissionError, Inl FileNotFoundError}
    \<longrightarrow> fst (import_file_from_ssp_cloud fs_obj src dst w) = Inr ())"
  by (auto simp add: bucket_fst file_fst)

theorem no_return_value_witness:
  "fst (import_bucket_from_ssp_cloud (serving ''0123'') ''bucket/data'' ''./data'' None fresh) = Inr () \<and>
   fst (import_bucket_from_ssp_cloud denying ''bucket/data'' ''./data'' None fresh) = Inr () \<and>
   fst (import_file_from_ssp_cloud (serving ''0123'') ''bucket/t.txt'' ''./t.txt'' fresh) = Inr () \<and>
   fst (import_file_from_ssp_cloud denying ''bucket/t.txt'' ''./t.txt'' fresh) = Inr () \<and>
   fst (import_file_from_ssp_cloud missing ''bucket/t.txt'' ''./t.txt'' fresh) = Inr ()"
proof -
  note s = no_return_value [where fs_obj = "serving ''0123''" and w = fresh and recursive_arg = None]
  note d = no_return_value [where fs_obj = denying and w = fresh and recursive_arg = None]
  note m = no_return_value [where fs_obj = missing and w = fresh and recursive_arg = None]
  have "fst (import_bucket_from_ssp_cloud (serving ''0123'') ''bucket/data'' ''./data'' None fresh) = Inr ()"
    using s [of "''bucket/data''" "''./data''"] by (simp add: serving_def)
  moreover
  have "fst (import_bucket_from_ssp_cloud denying ''bucket/data'' ''./data'' None fresh) = Inr ()"
    using d [of "''bucket/data''" "''./data''"] by (simp add: denying_def)
  moreover
  have "fst (import_file_from_ssp_cloud (serving ''0123'') ''bucket/t.txt'' ''./t.txt'' fresh) = Inr ()"
    using s [of "''bucket/t.txt''" "''./t.txt''"] by (simp add: serving_def)
  moreover
  have "fst (import_file_from_ssp_cloud denying ''bucket/t.txt'' ''./t.txt'' fresh) = Inr ()"
    using d [of "''bucket/t.txt''" "''./t.txt''"] by (simp add: denying_def)
  moreover
  have "fst (import_file_from_ssp_cloud missing ''bucket/t.txt'' ''./t.txt'' fresh) = Inr ()"
    using m [of "''bucket/t.txt''" "''./t.txt''"] by (simp add: missing_def)
  ultimately show ?thesis by simp
qed

subsection \<open>The calls made to the filesystem object\<close>

text \<open>
  C7. \<open>import_bucket_from_ssp_cloud\<close> hands its \<open>recursive\<close> argument to \<open>get\<close> as
  it received it, and hands \<open>True\<close> when the caller gave none: this is the keyword
  argument of the one call it records, and the environment it leaves is the one \<open>get\<close>
  produced for that call.
\<close>

theorem import_bucket_passes_recursive:
  "calls (snd (import_bucket_from_ssp_cloud fs_obj src dst (Some b) w)) =
     calls w @ [\<lparr>rpath = src, lpath = dst, recursive_kw = Some b\<rparr>] \<and>
   env (snd (import_bucket_from_ssp_cloud fs_obj src dst (Some b) w)) =
     snd (fs_obj \<lparr>rpath = src, lpath = dst, recursive_kw = Some b\<rparr> (env w)) \<and>
   calls (snd (import_bucket_from_ssp_cloud fs_obj src dst None w)) =
     calls w @ [\<lparr>rpath = src, lpath = dst, recursive_kw = Some True\<rparr>] \<and>
   env (snd (import_bucket_from_ssp_cloud fs_obj src dst None w)) =
     snd (fs_obj \<lparr>rpath = src, lpath = dst, recursive_kw = Some True\<rparr> (env w))"
  by (simp add: bucket_calls bucket_env recursive_default_def)

text \<open>
  C10. Each call of either function calls \<open>get\<close> exactly once, whatever \<open>get\<close> does:
  the record of calls grows by one entry, and the environment the function leaves is the
  one that a single application of \<open>get\<close> to that entry and to the environment before
  the call produced. The entry of \<open>import_file_from_ssp_cloud\<close> has the source and the
  destination and no \<open>recursive\<close> keyword; the entry of
  \<open>import_bucket_from_ssp_cloud\<close> has the keyword.
\<close>

theorem one_get_per_call:
  "calls (snd (import_file_from_ssp_cloud fs_obj src dst w)) =
     calls w @ [\<lparr>rpath = src, lpath = dst, recursive_kw = None\<rparr>] \<and>
   env (snd (import_file_from_ssp_cloud fs_obj src dst w)) =
     snd (fs_obj \<lparr>rpath = src, lpath = dst, recursive_kw = None\<rparr> (env w)) \<and>
   calls (snd (import_bucket_from_ssp_cloud fs_obj src dst recursive_arg w)) =
     calls w @ [\<lparr>rpath = src, lpath = dst,
                 recursive_kw = Some (recursive_default recursive_arg)\<rparr>] \<and>
   env (snd (import_bucket_from_ssp_cloud fs_obj src dst recursive_arg w)) =
     snd (fs_obj \<lparr>rpath = src, lpath = dst,
                  recursive_kw = Some (recursive_default recursive_arg)\<rparr> (env w)) \<and>
   length (calls (snd (import_file_from_ssp_cloud fs_obj src dst w))) = Suc (length (calls w)) \<and>
   length (calls (snd (import_bucket_from_ssp_cloud fs_obj src dst recursive_arg w))) =
     Suc (length (calls w))"
  by (simp add: file_calls file_env bucket_calls bucket_env)

subsection \<open>The local filesystem\<close>

text \<open>
  C8, as the claim has it, fails: the functions do not undo what \<open>get\<close> wrote before it
  raised. With a store that writes to the local path and then raises
  \<open>PermissionError\<close>, both functions return, and the destination, which held nothing,
  holds the partial download.
\<close>

theorem permission_denied_destination_changed:
  "fst (denying_after_writing
          \<lparr>rpath = ''bucket/data'', lpath = ''./data'', recursive_kw = Some True\<rparr> (env fresh))
     = Inl PermissionError \<and>
   fst (denying_after_writing
          \<lparr>rpath = ''bucket/data'', lpath = ''./data'', recursive_kw = None\<rparr> (env fresh))
     = Inl PermissionError \<and>
   fst (import_bucket_from_ssp_cloud denying_after_writing ''bucket/data'' ''./data'' None fresh)
     = Inr () \<and>
   fst (import_file_from_ssp_cloud denying_after_writing ''bucket/data'' ''./data'' fresh)
     = Inr () \<and>
   disk (env fresh) ''./data'' = None \<and>
   disk (env (snd (import_bucket_from_ssp_cloud denying_after_writing
                     ''bucket/data'' ''./data'' None fresh))) ''./data'' = Some ''partial'' \<and>
   disk (env (snd (import_file_from_ssp_cloud denying_after_writing
                     ''bucket/data'' ''./data'' fresh))) ''./data'' = Some ''partial'' \<and>
   disk (env (snd (import_bucket_from_ssp_cloud denying_after_writing
                     ''bucket/data'' ''./data'' None fresh))) ''./data''
     \<noteq> disk (env fresh) ''./data'' \<and>
   disk (env (snd (import_file_from_ssp_cloud denying_after_writing
                     ''bucket/data'' ''./data'' fresh))) ''./data''
     \<noteq> disk (env fresh) ''./data''"
  by (simp add: bucket_fst file_fst bucket_env file_env denying_after_writing_def
      recursive_default_def fresh_def)

text \<open>
  C8, amended. When \<open>get\<close> raises \<open>PermissionError\<close>, the function returns and writes
  nothing itself: the environment after the function, the local filesystem with it, is
  exactly the one \<open>get\<close> left when it raised, so the destination holds what \<open>get\<close>
  left there.
\<close>

theorem permission_denied_leaves_what_get_left:
  "(fs_obj \<lparr>rpath = src, lpath = dst,
              recursive_kw = Some (recursive_default recursive_arg)\<rparr> (env w)
      = (Inl PermissionError, e')
    \<longrightarrow> fst (import_bucket_from_ssp_cloud fs_obj src dst recursive_arg w) = Inr () \<and>
        env (snd (import_bucket_from_ssp_cloud fs_obj src dst recursive_arg w)) = e' \<and>
        disk (env (snd (import_bucket_from_ssp_cloud fs_obj src dst recursive_arg w))) dst
          = disk e' dst) \<and>
   (fs_obj \<lparr>rpath = src, lpath = dst, recursive_kw = None\<rparr> (env w)
      = (Inl PermissionError, e')
    \<longrightarrow> fst (import_file_from_ssp_cloud fs_obj src dst w) = Inr () \<and>
        env (snd (import_file_from_ssp_cloud fs_obj src dst w)) = e' \<and>
        disk (env (snd (import_file_from_ssp_cloud fs_obj src dst w))) dst = disk e' dst)"
  by (simp add: bucket_fst file_fst bucket_env file_env)

theorem permission_denied_leaves_what_get_left_witness:
  "env (snd (import_bucket_from_ssp_cloud denying ''bucket/data'' ''./data'' None fresh)) = env fresh \<and>
   disk (env (snd (import_bucket_from_ssp_cloud denying ''bucket/data'' ''./data'' None fresh)))
     ''./data'' = None \<and>
   env (snd (import_file_from_ssp_cloud denying ''bucket/data'' ''./data'' fresh)) = env fresh \<and>
   disk (env (snd (import_file_from_ssp_cloud denying ''bucket/data'' ''./data'' fresh)))
     ''./data'' = None"
proof -
  have b: "denying \<lparr>rpath = ''bucket/data'', lpath = ''./data'',
                     recursive_kw = Some (recursive_default None)\<rparr> (env fresh)
           = (Inl PermissionError, env fresh)"
    and f: "denying \<lparr>rpath = ''bucket/data'', lpath = ''./data'', recursive_kw = None\<rparr> (env fresh)
           = (Inl PermissionError, env fresh)"
    by (simp_all add: denying_def)
  have n: "disk (env fresh) ''./data'' = None"
    by (simp add: fresh_def)
  show ?thesis
    using permission_denied_leaves_what_get_left
        [where fs_obj = denying and src = "''bucket/data''" and dst = "''./data''"
           and recursive_arg = None and w = fresh and e' = "env fresh"]
      b f n
    by simp
qed

text \<open>
  C9. Calling \<open>import_file_from_ssp_cloud\<close> twice with the same arguments, when \<open>get\<close>
  returns both times and the second call leaves at the destination the content the first
  one left there: both calls return, the destination holds what it held after the first
  call, and the two lines printed are the same success message.
\<close>

theorem import_file_twice:
  assumes "fs_obj \<lparr>rpath = src, lpath = dst, recursive_kw = None\<rparr> (env w) = (Inr (), e1)"
    and "fs_obj \<lparr>rpath = src, lpath = dst, recursive_kw = None\<rparr> e1 = (Inr (), e2)"
    and "disk e2 dst = disk e1 dst"
  shows "fst (and_then (import_file_from_ssp_cloud fs_obj src dst)
                       (import_file_from_ssp_cloud fs_obj src dst) w) = Inr () \<and>
         disk (env (snd (and_then (import_file_from_ssp_cloud fs_obj src dst)
                                  (import_file_from_ssp_cloud fs_obj src dst) w))) dst =
           disk (env (snd (import_file_from_ssp_cloud fs_obj src dst w))) dst \<and>
         stdout (snd (and_then (import_file_from_ssp_cloud fs_obj src dst)
                               (import_file_from_ssp_cloud fs_obj src dst) w)) =
           stdout w @ [''The file '' @ src @ '' has been downloaded to '' @ dst,
                       ''The file '' @ src @ '' has been downloaded to '' @ dst]"
proof -
  let ?f = "import_file_from_ssp_cloud fs_obj src dst"
  let ?w1 = "snd (?f w)"
  have r1: "fst (?f w) = Inr ()"
    using assms(1) by (simp add: file_fst)
  have e1: "env ?w1 = e1"
    using assms(1) by (simp add: file_env)
  have o1: "stdout ?w1 = stdout w @ [file_downloaded src dst]"
    using assms(1) by (simp add: file_stdout)
  have seq: "and_then ?f ?f w = ?f ?w1"
    using r1 by (simp add: and_then_def)
  have r2: "fst (?f ?w1) = Inr ()"
    using assms(2) e1 by (simp add: file_fst)
  have e2: "env (snd (?f ?w1)) = e2"
    using assms(2) e1 by (simp add: file_env)
  have o2: "stdout (snd (?f ?w1)) = stdout ?w1 @ [file_downloaded src dst]"
    using assms(2) e1 by (simp add: file_stdout)
  show ?thesis
    using seq r2 e1 e2 o1 o2 assms(3) by (simp add: file_downloaded_def)
qed

theorem import_file_twice_witness:
  "fst (and_then (import_file_from_ssp_cloud (serving ''0123'') ''bucket/t.txt'' ''./t.txt'')
                 (import_file_from_ssp_cloud (serving ''0123'') ''bucket/t.txt'' ''./t.txt'') fresh)
     = Inr () \<and>
   disk (env (snd (and_then (import_file_from_ssp_cloud (serving ''0123'') ''bucket/t.txt'' ''./t.txt'')
                 (import_file_from_ssp_cloud (serving ''0123'') ''bucket/t.txt'' ''./t.txt'') fresh)))
     ''./t.txt'' = Some ''0123'' \<and>
   stdout (snd (and_then (import_file_from_ssp_cloud (serving ''0123'') ''bucket/t.txt'' ''./t.txt'')
                 (import_file_from_ssp_cloud (serving ''0123'') ''bucket/t.txt'' ''./t.txt'') fresh))
     = [''The file bucket/t.txt has been downloaded to ./t.txt'',
        ''The file bucket/t.txt has been downloaded to ./t.txt'']"
proof -
  let ?c = "\<lparr>rpath = ''bucket/t.txt'', lpath = ''./t.txt'', recursive_kw = None\<rparr>"
  let ?e = "\<lparr>disk = [''./t.txt'' \<mapsto> ''0123''], remote = ()\<rparr>"
  have a: "serving ''0123'' ?c (env fresh) = (Inr (), ?e)"
    by (simp add: serving_def fresh_def)
  have b: "serving ''0123'' ?c ?e = (Inr (), ?e)"
    by (simp add: serving_def)
  have once: "disk (env (snd (import_file_from_ssp_cloud (serving ''0123'') ''bucket/t.txt''
                ''./t.txt'' fresh))) ''./t.txt'' = Some ''0123''"
    using a by (simp add: file_env)
  show ?thesis
    using import_file_twice [where fs_obj = "serving ''0123''" and w = fresh, OF a b] once
    by (simp add: fresh_def)
qed

end
